theory Spec2Isabelle
  imports Main "HOL-Library.Multiset"
begin

section \<open>Python text\<close>

text \<open>
  A Python \<open>str\<close> read from the caller is a \<^typ>\<open>string\<close>: a list of characters, each a
  code point below 256, so that \<^const>\<open>length\<close> counts what Python's \<open>len\<close> counts.
  \<open>s.rstrip(cs)\<close> and \<open>s.lstrip(cs)\<close> remove every trailing (leading) character that
  occurs in \<open>cs\<close>, not only one of them.
\<close>

definition lstrip :: "string \<Rightarrow> string \<Rightarrow> string" where
  "lstrip cs s = dropWhile (\<lambda>c. c \<in> set cs) s"

definition rstrip :: "string \<Rightarrow> string \<Rightarrow> string" where
  "rstrip cs s = rev (dropWhile (\<lambda>c. c \<in> set cs) (rev s))"

fun startswith :: "string \<Rightarrow> string \<Rightarrow> bool" where
  "startswith s [] = True"
| "startswith [] (p # ps) = False"
| "startswith (c # cs) (p # ps) = (c = p \<and> startswith cs ps)"

text \<open>Truth value of an \<open>Optional[str]\<close>: \<open>None\<close> and the empty text are false.\<close>

definition truthy :: "string option \<Rightarrow> bool" where
  "truthy v = (case v of None \<Rightarrow> False | Some s \<Rightarrow> s \<noteq> [])"

text \<open>\<open>v or ""\<close> for an \<open>Optional[str]\<close>.\<close>

definition or_empty :: "string option \<Rightarrow> string" where
  "or_empty v = (case v of None \<Rightarrow> [] | Some s \<Rightarrow> s)"

datatype error = ValueError string | UnicodeEncodeError


section \<open>Issuer URLs (routes.py)\<close>

text \<open>
  \<open>AnyHttpUrl\<close> is pydantic's URL type. The code reads a URL through its accessors only
  (\<open>url.scheme\<close>, \<open>url.username\<close>, \<open>url.password\<close>, \<open>url.host\<close>, \<open>url.port\<close>, \<open>url.path\<close>,
  \<open>url.query\<close>, \<open>url.fragment\<close>), so a URL is the record of what they return. For
  \<open>https://auth.example.com\<close> pydantic reports the scheme \<open>https\<close>, the host
  \<open>auth.example.com\<close>, the scheme's port 443, the path \<open>/\<close> and nothing else.
\<close>

record AnyHttpUrl =
  scheme :: string
  username :: "string option"
  password :: "string option"
  host :: "string option"
  port :: "nat option"
  path :: "string option"
  query :: "string option"
  fragment :: "string option"

definition validate_issuer_url :: "AnyHttpUrl \<Rightarrow> error + unit" where
  "validate_issuer_url url =
     (if scheme url \<noteq> ''https''
         \<and> host url \<noteq> Some ''localhost''
         \<and> \<not> (case host url of None \<Rightarrow> False | Some h \<Rightarrow> startswith h ''127.0.0.1'')
      then Inl (ValueError ''Issuer URL must be HTTPS'')
      else if truthy (fragment url)
      then Inl (ValueError ''Issuer URL must not have a fragment'')
      else if truthy (query url)
      then Inl (ValueError ''Issuer URL must not have a query string'')
      else Inr ())"

definition AUTHORIZATION_PATH :: string where "AUTHORIZATION_PATH = ''/authorize''"
definition TOKEN_PATH :: string where "TOKEN_PATH = ''/token''"
definition REGISTRATION_PATH :: string where "REGISTRATION_PATH = ''/register''"
definition REVOCATION_PATH :: string where "REVOCATION_PATH = ''/revoke''"

text \<open>
  \<open>AnyHttpUrl.build\<close> is pydantic's: it writes
  \<open>scheme://[username[:password]@]host[:port]/path[?query][#fragment]\<close>, putting its own
  \<open>/\<close> between the authority and the path it is given, and reads the text back as a URL.
  The components \<open>modify_url_path\<close> hands over come from a URL that was read before, so
  they are read back as they are; the path is read back behind the \<open>/\<close> that was written.
\<close>

definition AnyHttpUrl_build ::
  "string \<Rightarrow> string option \<Rightarrow> string option \<Rightarrow> string option \<Rightarrow> nat option \<Rightarrow> string \<Rightarrow>
   string option \<Rightarrow> string option \<Rightarrow> AnyHttpUrl" where
  "AnyHttpUrl_build scheme' username' password' host' port' path' query' fragment' =
     \<lparr>scheme = scheme', username = username', password = password', host = host',
      port = port', path = Some (CHR ''/'' # path'), query = query', fragment = fragment'\<rparr>"

definition modify_url_path :: "AnyHttpUrl \<Rightarrow> (string \<Rightarrow> string) \<Rightarrow> AnyHttpUrl" where
  "modify_url_path url path_mapper =
     AnyHttpUrl_build (scheme url) (username url) (password url) (host url) (port url)
       (path_mapper (or_empty (path url))) (query url) (fragment url)"

text \<open>
  Modelled from the spec: the option classes of \<open>mcp.server.auth.settings\<close> are not among the
  sources. Both \<open>ClientRegistrationOptions\<close> and \<open>RevocationOptions\<close> carry an \<open>enabled\<close>
  flag, the only attribute read here; an object of either class is true in a Python
  condition.
\<close>

record feature_options =
  enabled :: bool

type_synonym ClientRegistrationOptions = feature_options
type_synonym RevocationOptions = feature_options

text \<open>
  Modelled from the spec: the declaration of \<open>OAuthMetadata\<close> (\<open>mcp.shared.auth\<close>) is not
  among the sources. The record has the fields \<open>build_metadata\<close> names; the three it
  assigns after the constructor call (\<open>registration_endpoint\<close>, \<open>revocation_endpoint\<close>,
  \<open>revocation_endpoint_auth_methods_supported\<close>) are absent until assigned.
\<close>

record OAuthMetadata =
  issuer :: AnyHttpUrl
  authorization_endpoint :: AnyHttpUrl
  token_endpoint :: AnyHttpUrl
  registration_endpoint :: "AnyHttpUrl option"
  scopes_supported :: "string list option"
  response_types_supported :: "string list"
  response_modes_supported :: "string list option"
  grant_types_supported :: "string list"
  token_endpoint_auth_methods_supported :: "string list"
  token_endpoint_auth_signing_alg_values_supported :: "string list option"
  service_documentation :: "AnyHttpUrl option"
  ui_locales_supported :: "string list option"
  op_policy_uri :: "AnyHttpUrl option"
  op_tos_uri :: "AnyHttpUrl option"
  revocation_endpoint :: "AnyHttpUrl option"
  revocation_endpoint_auth_methods_supported :: "string list option"
  introspection_endpoint :: "AnyHttpUrl option"
  code_challenge_methods_supported :: "string list"

definition build_metadata ::
  "AnyHttpUrl \<Rightarrow> AnyHttpUrl option \<Rightarrow> ClientRegistrationOptions \<Rightarrow> RevocationOptions \<Rightarrow>
   OAuthMetadata" where
  "build_metadata issuer_url service_documentation_url client_registration_options
       revocation_options =
     (let authorization_url = modify_url_path issuer_url
            (\<lambda>path. rstrip ''/'' path @ lstrip ''/'' AUTHORIZATION_PATH);
          token_url = modify_url_path issuer_url
            (\<lambda>path. rstrip ''/'' path @ lstrip ''/'' TOKEN_PATH);
          metadata = \<lparr>issuer = issuer_url,
            authorization_endpoint = authorization_url,
            token_endpoint = token_url,
            registration_endpoint = None,
            scopes_supported = None,
            response_types_supported = [''code''],
            response_modes_supported = None,
            grant_types_supported = [''authorization_code'', ''refresh_token''],
            token_endpoint_auth_methods_supported = [''client_secret_post''],
            token_endpoint_auth_signing_alg_values_supported = None,
            service_documentation = service_documentation_url,
            ui_locales_supported = None,
            op_policy_uri = None,
            op_tos_uri = None,
            revocation_endpoint = None,
            revocation_endpoint_auth_methods_supported = None,
            introspection_endpoint = None,
            code_challenge_methods_supported = [''S256'']\<rparr>;
          metadata =
            (if enabled client_registration_options
             then metadata\<lparr>registration_endpoint := Some (modify_url_path issuer_url
                    (\<lambda>path. rstrip ''/'' path @ lstrip ''/'' REGISTRATION_PATH))\<rparr>
             else metadata);
          metadata =
            (if enabled revocation_options
             then metadata\<lparr>revocation_endpoint := Some (modify_url_path issuer_url
                    (\<lambda>path. rstrip ''/'' path @ lstrip ''/'' REVOCATION_PATH)),
                    revocation_endpoint_auth_methods_supported := Some [''client_secret_post'']\<rparr>
             else metadata)
      in metadata)"

text \<open>
  A starlette \<open>Route\<close> is kept as the arguments it is made from: its path, the handler
  bound to it and its methods. The handlers are kept as the constructor calls of the
  source, over a provider of any type \<open>'p\<close>.
\<close>

datatype 'p ClientAuthenticator = ClientAuthenticator 'p

datatype 'p handler =
    MetadataHandler OAuthMetadata
  | AuthorizationHandler 'p
  | TokenHandler 'p "'p ClientAuthenticator"
  | RegistrationHandler 'p ClientRegistrationOptions
  | RevocationHandler 'p "'p ClientAuthenticator"

record 'p Route =
  route_path :: string
  endpoint :: "'p handler"
  methods :: "string list"

text \<open>
  \<open>ClientRegistrationOptions()\<close> and \<open>RevocationOptions()\<close>, the options used when the caller
  passes none, are declared outside the sources: they are the first two parameters.
\<close>

definition create_auth_routes ::
  "ClientRegistrationOptions \<Rightarrow> RevocationOptions \<Rightarrow>
   'p \<Rightarrow> AnyHttpUrl \<Rightarrow> AnyHttpUrl option \<Rightarrow> ClientRegistrationOptions option \<Rightarrow>
   RevocationOptions option \<Rightarrow> error + 'p Route list" where
  "create_auth_routes default_registration default_revocation
       provider issuer_url service_documentation_url client_registration_options
       revocation_options =
     (case validate_issuer_url issuer_url of
        Inl e \<Rightarrow> Inl e
      | Inr _ \<Rightarrow>
         (let client_registration_options =
                (case client_registration_options of
                   None \<Rightarrow> default_registration | Some opts \<Rightarrow> opts);
              revocation_options =
                (case revocation_options of None \<Rightarrow> default_revocation | Some opts \<Rightarrow> opts);
              metadata = build_metadata issuer_url service_documentation_url
                client_registration_options revocation_options;
              client_authenticator = ClientAuthenticator provider;
              routes =
                [\<lparr>route_path = ''/.well-known/oauth-authorization-server'',
                  endpoint = MetadataHandler metadata, methods = [''GET'']\<rparr>,
                 \<lparr>route_path = AUTHORIZATION_PATH,
                  endpoint = AuthorizationHandler provider, methods = [''GET'', ''POST'']\<rparr>,
                 \<lparr>route_path = TOKEN_PATH,
                  endpoint = TokenHandler provider client_authenticator,
                  methods = [''POST'']\<rparr>];
              routes =
                (if enabled client_registration_options
                 then routes @ [\<lparr>route_path = REGISTRATION_PATH,
                        endpoint = RegistrationHandler provider client_registration_options,
                        methods = [''POST'']\<rparr>]
                 else routes);
              routes =
                (if enabled revocation_options
                 then routes @ [\<lparr>route_path = REVOCATION_PATH,
                        endpoint = RevocationHandler provider client_authenticator,
                        methods = [''POST'']\<rparr>]
                 else routes)
          in Inr routes))"

text \<open>
  \<open>str(url)\<close>: pydantic writes a URL as scheme, authority, path, query and fragment, and
  leaves out the port when it is the scheme's own (80 for http, 443 for https).
\<close>

function decimal :: "nat \<Rightarrow> string" where
  "decimal n =
     (if n < 10 then [char_of (48 + n)] else decimal (n div 10) @ [char_of (48 + n mod 10)])"
  by pat_completeness auto
termination
  by (relation "measure id") auto

declare decimal.simps [simp del]

definition default_port :: "string \<Rightarrow> nat option" where
  "default_port s = (if s = ''http'' then Some 80 else if s = ''https'' then Some 443 else None)"

definition AnyHttpUrl_str :: "AnyHttpUrl \<Rightarrow> string" where
  "AnyHttpUrl_str url =
     scheme url @ ''://''
     @ (case username url of
          None \<Rightarrow> (case password url of None \<Rightarrow> [] | Some pw \<Rightarrow> '':'' @ pw @ ''@'')
        | Some u \<Rightarrow> u @ (case password url of None \<Rightarrow> [] | Some pw \<Rightarrow> '':'' @ pw) @ ''@'')
     @ or_empty (host url)
     @ (case port url of
          None \<Rightarrow> []
        | Some p \<Rightarrow> if default_port (scheme url) = Some p then [] else '':'' @ decimal p)
     @ or_empty (path url)
     @ (case query url of None \<Rightarrow> [] | Some q \<Rightarrow> ''?'' @ q)
     @ (case fragment url of None \<Rightarrow> [] | Some f \<Rightarrow> ''#'' @ f)"

text \<open>What a route binds: its path and its methods.\<close>

definition route_binding :: "'p Route \<Rightarrow> string \<times> string list" where
  "route_binding r = (route_path r, methods r)"


section \<open>Redirect URIs (provider.py)\<close>

text \<open>
  \<open>OAuthServerProvider\<close> and \<open>OAuthRegisteredClientsStore\<close> are \<open>typing.Protocol\<close> classes:
  each method (\<open>authorize\<close>, \<open>exchange_authorization_code\<close>, \<open>revoke_token\<close>, ...) is declared
  with the body \<open>...\<close> and has no implementation here, so a provider is a value of any
  type (the \<open>'p\<close> of the route table). The one function of the file with a body is
  \<open>construct_redirect_uri\<close>.
\<close>

subsection \<open>The URL functions of the standard library\<close>

text \<open>
  \<open>construct_redirect_uri\<close> calls \<open>urlparse\<close>, \<open>parse_qs\<close>, \<open>urlencode\<close> and \<open>urlunparse\<close>
  of \<open>urllib.parse\<close>. They are modelled as CPython 3.12.3 defines them, on text whose code
  points lie below 256 (on such text \<open>_checknetloc\<close> never raises, and it is left out).
  Percent-decoding can produce any code point, so text that went through \<open>unquote\<close> is a
  list of code points.
\<close>

type_synonym codepoints = "nat list"

definition code_points :: "string \<Rightarrow> codepoints" where
  "code_points s = map of_char s"

definition is_ascii :: "char \<Rightarrow> bool" where
  "is_ascii c = ((of_char c :: nat) < 128)"

text \<open>\<open>s.partition(sep)\<close>, and \<open>s.split(sep, 1)\<close> for a text that contains \<open>sep\<close>: what is
  before the first \<open>sep\<close>, and what is behind it (nothing when there is no \<open>sep\<close>).\<close>

definition split1 :: "char \<Rightarrow> string \<Rightarrow> string \<times> string" where
  "split1 sep s = (takeWhile (\<lambda>c. c \<noteq> sep) s, tl (dropWhile (\<lambda>c. c \<noteq> sep) s))"

text \<open>\<open>s.split(sep)\<close>: the pieces between the separators, empty pieces included.\<close>

fun split_on :: "char \<Rightarrow> string \<Rightarrow> string list" where
  "split_on sep [] = [[]]"
| "split_on sep (c # cs) =
     (if c = sep then [] # split_on sep cs
      else (case split_on sep cs of [] \<Rightarrow> [[c]] | piece # pieces \<Rightarrow> (c # piece) # pieces))"

fun join :: "string \<Rightarrow> string list \<Rightarrow> string" where
  "join sep [] = []"
| "join sep [s] = s"
| "join sep (s # t # ts) = s @ sep @ join sep (t # ts)"

definition lower :: "char \<Rightarrow> char" where
  "lower c = (if 65 \<le> (of_char c :: nat) \<and> (of_char c :: nat) \<le> 90
              then char_of (of_char c + 32 :: nat) else c)"

text \<open>The six components of \<open>ParseResult\<close>.\<close>

record ParseResult =
  uri_scheme :: string
  uri_netloc :: string
  uri_path :: string
  uri_params :: string
  uri_query :: string
  uri_fragment :: string

definition uses_netloc :: "string list" where
  "uses_netloc = ['''', ''ftp'', ''http'', ''gopher'', ''nntp'', ''telnet'', ''imap'', ''wais'',
     ''file'', ''mms'', ''https'', ''shttp'', ''snews'', ''prospero'', ''rtsp'', ''rtsps'',
     ''rtspu'', ''rsync'', ''svn'', ''svn+ssh'', ''sftp'', ''nfs'', ''git'', ''git+ssh'', ''ws'',
     ''wss'', ''itms-services'']"

definition uses_params :: "string list" where
  "uses_params = ['''', ''ftp'', ''hdl'', ''prospero'', ''http'', ''imap'', ''https'', ''shttp'',
     ''rtsp'', ''rtsps'', ''rtspu'', ''sip'', ''sips'', ''mms'', ''sftp'', ''tel'']"

definition scheme_chars :: string where
  "scheme_chars =
     ''abcdefghijklmnopqrstuvwxyzABCDEFGHIJKLMNOPQRSTUVWXYZ0123456789+-.''"

text \<open>\<open>_splitnetloc(url, 2)\<close>: the authority runs from behind the two slashes to the first
  of \<open>/\<close>, \<open>?\<close> and \<open>#\<close>.\<close>

definition splitnetloc :: "string \<Rightarrow> string \<times> string" where
  "splitnetloc url =
     (takeWhile (\<lambda>c. c \<notin> set ''/?#'') (drop 2 url),
      dropWhile (\<lambda>c. c \<notin> set ''/?#'') (drop 2 url))"

text \<open>
  The check of a bracketed host, \<open>_check_bracketed_netloc\<close>. The host is what stands
  between \<open>[\<close> and \<open>]\<close> behind the user information; nothing may stand before the
  bracket, and only a port behind it. A host that starts with \<open>v\<close> must be an IPvFuture
  literal (\<open>v\<close>, hexadecimal digits, a dot, at least one more character); any other host
  must be an address that \<open>ipaddress.ip_address\<close> reads as IPv6. The validity of IPv4 and
  IPv6 addresses follows \<open>ipaddress.py\<close>; the two hextets it writes for an IPv4 suffix are
  valid whatever the address is, and \<open>0\<close> stands for each of them.
\<close>

definition is_digit :: "char \<Rightarrow> bool" where
  "is_digit c = (48 \<le> (of_char c :: nat) \<and> (of_char c :: nat) \<le> 57)"

definition is_hex_digit :: "char \<Rightarrow> bool" where
  "is_hex_digit c = (c \<in> set ''0123456789ABCDEFabcdef'')"

definition decimal_value :: "string \<Rightarrow> nat" where
  "decimal_value s = foldl (\<lambda>n c. 10 * n + ((of_char c :: nat) - 48)) 0 s"

definition valid_octet :: "string \<Rightarrow> bool" where
  "valid_octet octet_str =
     (octet_str \<noteq> [] \<and> list_all is_digit octet_str \<and> length octet_str \<le> 3
      \<and> (octet_str = ''0'' \<or> hd octet_str \<noteq> CHR ''0'')
      \<and> decimal_value octet_str \<le> 255)"

definition valid_ipv4 :: "string \<Rightarrow> bool" where
  "valid_ipv4 addr_str =
     (CHR ''/'' \<notin> set addr_str \<and> addr_str \<noteq> []
      \<and> length (split_on CHR ''.'' addr_str) = 4
      \<and> list_all valid_octet (split_on CHR ''.'' addr_str))"

definition valid_hextet :: "string \<Rightarrow> bool" where
  "valid_hextet hextet_str =
     (list_all is_hex_digit hextet_str \<and> length hextet_str \<le> 4 \<and> hextet_str \<noteq> [])"

definition valid_ipv6_parts :: "string \<Rightarrow> bool" where
  "valid_ipv6_parts ip_str =
     (if ip_str = [] then False
      else
        (let parts = split_on CHR '':'' ip_str
         in if length parts < 3 then False
            else if CHR ''.'' \<in> set (last parts) \<and> \<not> valid_ipv4 (last parts) then False
            else
              (let parts = (if CHR ''.'' \<in> set (last parts)
                            then butlast parts @ [''0'', ''0''] else parts);
                   skips = filter (\<lambda>i. parts ! i = []) [1 ..< length parts - 1]
               in if 9 < length parts then False
                  else
                    (case skips of
                       [] \<Rightarrow>
                         length parts = 8 \<and> hd parts \<noteq> [] \<and> last parts \<noteq> []
                         \<and> list_all valid_hextet parts
                     | [skip_index] \<Rightarrow>
                         (let parts_hi = skip_index;
                              parts_lo = length parts - skip_index - 1
                          in if hd parts = [] \<and> parts_hi - 1 \<noteq> 0 then False
                             else if last parts = [] \<and> parts_lo - 1 \<noteq> 0 then False
                             else
                               (let parts_hi = (if hd parts = [] then parts_hi - 1 else parts_hi);
                                    parts_lo = (if last parts = [] then parts_lo - 1 else parts_lo)
                                in parts_hi + parts_lo < 8
                                   \<and> list_all valid_hextet (take parts_hi parts)
                                   \<and> list_all valid_hextet
                                        (drop (length parts - parts_lo) parts)))
                     | _ \<Rightarrow> False))))"

definition valid_ipv6 :: "string \<Rightarrow> bool" where
  "valid_ipv6 addr_str =
     (if CHR ''/'' \<in> set addr_str then False
      else if CHR ''%'' \<in> set addr_str
      then (let (addr, scope_id) = split1 CHR ''%'' addr_str
            in scope_id \<noteq> [] \<and> CHR ''%'' \<notin> set scope_id \<and> valid_ipv6_parts addr)
      else valid_ipv6_parts addr_str)"

definition ipvfuture :: "string \<Rightarrow> bool" where
  "ipvfuture hostname =
     (case hostname of
        [] \<Rightarrow> False
      | c # rest \<Rightarrow>
          c = CHR ''v'' \<and> takeWhile is_hex_digit rest \<noteq> []
          \<and> take 1 (dropWhile is_hex_digit rest) = ''.''
          \<and> drop 1 (dropWhile is_hex_digit rest) \<noteq> [])"

text \<open>The message of \<open>ip_address\<close> quotes the host as \<open>repr\<close> writes a text without quotes,
  backslashes and control characters.\<close>

definition check_bracketed_host :: "string \<Rightarrow> error + unit" where
  "check_bracketed_host hostname =
     (if take 1 hostname = ''v''
      then (if ipvfuture hostname then Inr ()
            else Inl (ValueError ''IPvFuture address is invalid''))
      else if valid_ipv4 hostname
      then Inl (ValueError ''An IPv4 address cannot be in brackets'')
      else if valid_ipv6 hostname then Inr ()
      else Inl (ValueError ([CHR 0x27] @ hostname @ [CHR 0x27]
                  @ '' does not appear to be an IPv4 or IPv6 address'')))"

definition check_bracketed_netloc :: "string \<Rightarrow> error + unit" where
  "check_bracketed_netloc netloc =
     (let hostname_and_port = rev (takeWhile (\<lambda>c. c \<noteq> CHR ''@'') (rev netloc))
      in if CHR ''['' \<in> set hostname_and_port
         then (let before_bracket = fst (split1 CHR ''['' hostname_and_port);
                   bracketed = snd (split1 CHR ''['' hostname_and_port);
                   hostname = fst (split1 CHR '']'' bracketed);
                   port' = snd (split1 CHR '']'' bracketed)
               in if before_bracket \<noteq> [] then Inl (ValueError ''Invalid IPv6 URL'')
                  else if port' \<noteq> [] \<and> take 1 port' \<noteq> '':''
                  then Inl (ValueError ''Invalid IPv6 URL'')
                  else check_bracketed_host hostname)
         else check_bracketed_host (fst (split1 CHR '':'' hostname_and_port)))"

text \<open>
  \<open>urlsplit\<close>: leading control characters and spaces are stripped, tabs and line breaks
  are removed, the text before the first colon is the scheme when it starts with an
  ASCII letter and is made of scheme characters, an authority follows \<open>//\<close>, and the
  fragment and the query are split off at the first \<open>#\<close> and the first \<open>?\<close>. An
  authority with one bracket but not the other, or with a bracketed host that fails the
  check above, raises \<open>ValueError\<close>.
\<close>

definition is_ascii_alpha :: "char \<Rightarrow> bool" where
  "is_ascii_alpha c =
     ((65 \<le> (of_char c :: nat) \<and> (of_char c :: nat) \<le> 90)
      \<or> (97 \<le> (of_char c :: nat) \<and> (of_char c :: nat) \<le> 122))"

definition urlsplit :: "string \<Rightarrow> error + (string \<times> string \<times> string \<times> string \<times> string)" where
  "urlsplit url0 =
     (let url = dropWhile (\<lambda>c. (of_char c :: nat) \<le> 32) url0;
          url = filter (\<lambda>c. (of_char c :: nat) \<notin> {9, 10, 13}) url;
          candidate = takeWhile (\<lambda>c. c \<noteq> CHR '':'') url;
          (scheme', url) =
            (if CHR '':'' \<in> set url \<and> candidate \<noteq> [] \<and> is_ascii_alpha (hd url)
                \<and> list_all (\<lambda>c. c \<in> set scheme_chars) candidate
             then (map lower candidate, snd (split1 CHR '':'' url))
             else ([], url));
          (netloc, url) = (if take 2 url = ''//'' then splitnetloc url else ([], url))
      in if (CHR ''['' \<in> set netloc \<and> CHR '']'' \<notin> set netloc)
            \<or> (CHR '']'' \<in> set netloc \<and> CHR ''['' \<notin> set netloc)
         then Inl (ValueError ''Invalid IPv6 URL'')
         else
           (case (if CHR ''['' \<in> set netloc \<and> CHR '']'' \<in> set netloc
                  then check_bracketed_netloc netloc else Inr ()) of
              Inl e \<Rightarrow> Inl e
            | Inr _ \<Rightarrow>
               (let (url, fragment') =
                      (if CHR ''#'' \<in> set url then split1 CHR ''#'' url else (url, []));
                    (url, query') =
                      (if CHR ''?'' \<in> set url then split1 CHR ''?'' url else (url, []))
                in Inr (scheme', netloc, url, query', fragment'))))"

text \<open>\<open>_splitparams\<close>: the parameters start at the first \<open>;\<close> of the last path segment.\<close>

definition splitparams :: "string \<Rightarrow> string \<times> string" where
  "splitparams url =
     (if CHR ''/'' \<in> set url
      then (let segment = rev (takeWhile (\<lambda>c. c \<noteq> CHR ''/'') (rev url));
                before = rev (dropWhile (\<lambda>c. c \<noteq> CHR ''/'') (rev url))
            in if CHR '';'' \<in> set segment
               then (before @ fst (split1 CHR '';'' segment), snd (split1 CHR '';'' segment))
               else (url, []))
      else split1 CHR '';'' url)"

definition urlparse :: "string \<Rightarrow> error + ParseResult" where
  "urlparse url0 =
     (case urlsplit url0 of
        Inl e \<Rightarrow> Inl e
      | Inr (scheme', netloc, url, query', fragment') \<Rightarrow>
          (let (url, params) =
                 (if scheme' \<in> set uses_params \<and> CHR '';'' \<in> set url then splitparams url
                  else (url, []))
           in Inr \<lparr>uri_scheme = scheme', uri_netloc = netloc, uri_path = url,
                    uri_params = params, uri_query = query', uri_fragment = fragment'\<rparr>))"

definition urlunsplit :: "string \<Rightarrow> string \<Rightarrow> string \<Rightarrow> string \<Rightarrow> string \<Rightarrow> string" where
  "urlunsplit scheme' netloc url0 query' fragment' =
     (let url =
            (if netloc \<noteq> []
                \<or> (scheme' \<noteq> [] \<and> scheme' \<in> set uses_netloc \<and> take 2 url0 \<noteq> ''//'')
             then ''//'' @ netloc
                  @ (if url0 \<noteq> [] \<and> take 1 url0 \<noteq> ''/'' then ''/'' @ url0 else url0)
             else url0);
          url = (if scheme' \<noteq> [] then scheme' @ '':'' @ url else url);
          url = (if query' \<noteq> [] then url @ ''?'' @ query' else url);
          url = (if fragment' \<noteq> [] then url @ ''#'' @ fragment' else url)
      in url)"

definition urlunparse :: "ParseResult \<Rightarrow> string" where
  "urlunparse components =
     urlunsplit (uri_scheme components) (uri_netloc components)
       (if uri_params components \<noteq> []
        then uri_path components @ '';'' @ uri_params components
        else uri_path components)
       (uri_query components) (uri_fragment components)"

subsection \<open>Query strings\<close>

text \<open>
  \<open>unquote_to_bytes\<close>: \<open>%\<close> followed by two hexadecimal digits is the byte they write; any
  other \<open>%\<close> stays as it is.
\<close>

definition hexdig :: string where
  "hexdig = ''0123456789ABCDEFabcdef''"

definition hexval :: "char \<Rightarrow> nat" where
  "hexval c =
     (let n = (of_char c :: nat)
      in if n < 58 then n - 48 else if n < 71 then n - 55 else n - 87)"

fun unquote_to_bytes :: "string \<Rightarrow> nat list" where
  "unquote_to_bytes (c # a # b # rest) =
     (if c = CHR ''%'' \<and> a \<in> set hexdig \<and> b \<in> set hexdig
      then (16 * hexval a + hexval b) # unquote_to_bytes rest
      else of_char c # unquote_to_bytes (a # b # rest))"
| "unquote_to_bytes cs = map of_char cs"

text \<open>
  \<open>bytes.decode('utf-8', 'replace')\<close>: a well-formed sequence is its code point; a byte
  that cannot start a sequence, and the longest prefix of a sequence that breaks off, are
  each replaced by U+FFFD (65533).
\<close>

definition continuation :: "nat \<Rightarrow> bool" where
  "continuation b = (128 \<le> b \<and> b < 192)"

definition second_of_three :: "nat \<Rightarrow> nat \<Rightarrow> bool" where
  "second_of_three b b2 =
     (continuation b2 \<and> (if b2 < 160 then b \<noteq> 224 else b \<noteq> 237))"

definition second_of_four :: "nat \<Rightarrow> nat \<Rightarrow> bool" where
  "second_of_four b b2 =
     (continuation b2 \<and> (if b2 < 144 then b \<noteq> 240 else b \<noteq> 244))"

fun utf8_decode :: "nat list \<Rightarrow> codepoints" where
  "utf8_decode [] = []"
| "utf8_decode (b # bs) =
     (if b < 128 then b # utf8_decode bs
      else if b < 194 \<or> 245 \<le> b then 65533 # utf8_decode bs
      else if b < 224 then
        (case bs of
           [] \<Rightarrow> [65533]
         | b2 # r2 \<Rightarrow>
             if continuation b2 then ((b - 192) * 64 + (b2 - 128)) # utf8_decode r2
             else 65533 # utf8_decode bs)
      else if b < 240 then
        (case bs of
           [] \<Rightarrow> [65533]
         | b2 # r2 \<Rightarrow>
             if \<not> second_of_three b b2 then 65533 # utf8_decode bs
             else
               (case r2 of
                  [] \<Rightarrow> [65533]
                | b3 # r3 \<Rightarrow>
                    if continuation b3
                    then ((b - 224) * 4096 + (b2 - 128) * 64 + (b3 - 128)) # utf8_decode r3
                    else 65533 # utf8_decode r2))
      else
        (case bs of
           [] \<Rightarrow> [65533]
         | b2 # r2 \<Rightarrow>
             if \<not> second_of_four b b2 then 65533 # utf8_decode bs
             else
               (case r2 of
                  [] \<Rightarrow> [65533]
                | b3 # r3 \<Rightarrow>
                    if \<not> continuation b3 then 65533 # utf8_decode r2
                    else
                      (case r3 of
                         [] \<Rightarrow> [65533]
                       | b4 # r4 \<Rightarrow>
                           if continuation b4
                           then ((b - 240) * 262144 + (b2 - 128) * 4096 + (b3 - 128) * 64
                                 + (b4 - 128)) # utf8_decode r4
                           else 65533 # utf8_decode r3))))"

text \<open>
  \<open>unquote\<close> decodes each run of ASCII characters on its own and keeps the other
  characters.
\<close>

function unquote :: "string \<Rightarrow> codepoints" where
  "unquote [] = []"
| "unquote (c # cs) =
     (if is_ascii c
      then utf8_decode (unquote_to_bytes (c # takeWhile is_ascii cs))
           @ unquote (dropWhile is_ascii cs)
      else of_char c # unquote cs)"
  by pat_completeness auto
termination
  by (relation "measure length") (auto simp: length_dropWhile_le less_Suc_eq_le)

text \<open>
  \<open>parse_qsl\<close> with its defaults: the fields are separated by \<open>&\<close>; a field is cut at its
  first \<open>=\<close> (a field without \<open>=\<close> has an empty value); an empty field and a field with
  an empty value are skipped; \<open>+\<close> is a space.
  \<open>parse_qs\<close> collects the values of each name in a dictionary, kept here as the list of
  its items in insertion order.
\<close>

definition replace_plus :: "string \<Rightarrow> string" where
  "replace_plus s = map (\<lambda>c. if c = CHR ''+'' then CHR '' '' else c) s"

definition parse_field :: "string \<Rightarrow> (codepoints \<times> codepoints) list" where
  "parse_field name_value =
     (if name_value = [] then []
      else (let (name, val) = split1 CHR ''='' name_value
            in if val \<noteq> [] then [(unquote (replace_plus name), unquote (replace_plus val))]
               else []))"

definition parse_qsl :: "string \<Rightarrow> (codepoints \<times> codepoints) list" where
  "parse_qsl qs = concat (map parse_field (split_on CHR ''&'' qs))"

fun dict_append :: "'k \<Rightarrow> 'v \<Rightarrow> ('k \<times> 'v list) list \<Rightarrow> ('k \<times> 'v list) list" where
  "dict_append name val [] = [(name, [val])]"
| "dict_append name val ((k, vs) # d) =
     (if k = name then (k, vs @ [val]) # d else (k, vs) # dict_append name val d)"

definition parse_qs :: "string \<Rightarrow> (codepoints \<times> codepoints list) list" where
  "parse_qs qs = foldl (\<lambda>parsed_result (name, val). dict_append name val parsed_result) []
     (parse_qsl qs)"

text \<open>
  \<open>quote_plus\<close> and \<open>urlencode\<close>: the text is encoded as UTF-8 (a surrogate raises
  \<open>UnicodeEncodeError\<close>), the bytes of letters, digits and \<open>_.-~\<close> are kept, a space is
  written \<open>+\<close>, every other byte \<open>%XX\<close>; the fields \<open>name=value\<close> are joined by \<open>&\<close>.
\<close>

fun utf8_encode :: "codepoints \<Rightarrow> error + nat list" where
  "utf8_encode [] = Inr []"
| "utf8_encode (c # cs) =
     (if 55296 \<le> c \<and> c < 57344 then Inl UnicodeEncodeError
      else (case utf8_encode cs of
              Inl e \<Rightarrow> Inl e
            | Inr bs \<Rightarrow>
                Inr ((if c < 128 then [c]
                      else if c < 2048 then [192 + c div 64, 128 + c mod 64]
                      else if c < 65536
                      then [224 + c div 4096, 128 + c div 64 mod 64, 128 + c mod 64]
                      else [240 + c div 262144, 128 + c div 4096 mod 64, 128 + c div 64 mod 64,
                            128 + c mod 64]) @ bs)))"

definition always_safe :: string where
  "always_safe = ''ABCDEFGHIJKLMNOPQRSTUVWXYZabcdefghijklmnopqrstuvwxyz0123456789_.-~''"

definition quoter :: "string \<Rightarrow> nat \<Rightarrow> string" where
  "quoter safe b =
     (if char_of b \<in> set (always_safe @ safe) \<and> b < 128 then [char_of b]
      else [CHR ''%'', ''0123456789ABCDEF'' ! (b div 16), ''0123456789ABCDEF'' ! (b mod 16)])"

definition quote_from_bytes :: "string \<Rightarrow> nat list \<Rightarrow> string" where
  "quote_from_bytes safe bs = concat (map (quoter safe) bs)"

definition quote :: "string \<Rightarrow> codepoints \<Rightarrow> error + string" where
  "quote safe s =
     (if s = [] then Inr []
      else (case utf8_encode s of
              Inl e \<Rightarrow> Inl e
            | Inr bs \<Rightarrow> Inr (quote_from_bytes safe bs)))"

definition quote_plus :: "codepoints \<Rightarrow> error + string" where
  "quote_plus s =
     (if 32 \<notin> set s then quote [] s
      else (case quote '' '' s of
              Inl e \<Rightarrow> Inl e
            | Inr q \<Rightarrow> Inr (map (\<lambda>c. if c = CHR '' '' then CHR ''+'' else c) q)))"

fun urlencode_fields :: "(codepoints \<times> codepoints) list \<Rightarrow> error + string list" where
  "urlencode_fields [] = Inr []"
| "urlencode_fields ((k, v) # rest) =
     (case quote_plus k of
        Inl e \<Rightarrow> Inl e
      | Inr k' \<Rightarrow>
          (case quote_plus v of
             Inl e \<Rightarrow> Inl e
           | Inr v' \<Rightarrow>
               (case urlencode_fields rest of
                  Inl e \<Rightarrow> Inl e
                | Inr l \<Rightarrow> Inr ((k' @ ''='' @ v') # l))))"

definition urlencode :: "(codepoints \<times> codepoints) list \<Rightarrow> error + string" where
  "urlencode query' =
     (case urlencode_fields query' of Inl e \<Rightarrow> Inl e | Inr l \<Rightarrow> Inr (join ''&'' l))"

subsection \<open>construct\_redirect\_uri\<close>

text \<open>
  \<open>k, vs = s\<close> for a text \<open>s\<close>: unpacking iterates over the characters of \<open>s\<close> and raises
  \<open>ValueError\<close> unless there are exactly two.
\<close>

definition unpack_pair :: "codepoints \<Rightarrow> error + (codepoints \<times> codepoints)" where
  "unpack_pair s =
     (case s of
        [a, b] \<Rightarrow> Inr ([a], [b])
      | [] \<Rightarrow> Inl (ValueError ''not enough values to unpack (expected 2, got 0)'')
      | [a] \<Rightarrow> Inl (ValueError ''not enough values to unpack (expected 2, got 1)'')
      | _ \<Rightarrow> Inl (ValueError ''too many values to unpack (expected 2)''))"

text \<open>
  The comprehension \<open>[(k, v) for k, vs in parse_qs(parsed_uri.query) for v in vs]\<close>.
  Iterating over a dictionary yields its keys, so \<open>k, vs\<close> is unpacked from each parameter
  name, and \<open>for v in vs\<close> runs over the characters of \<open>vs\<close>.
\<close>

fun existing_params :: "codepoints list \<Rightarrow> error + (codepoints \<times> codepoints) list" where
  "existing_params [] = Inr []"
| "existing_params (key # keys) =
     (case unpack_pair key of
        Inl e \<Rightarrow> Inl e
      | Inr (k, vs) \<Rightarrow>
          (case existing_params keys of
             Inl e \<Rightarrow> Inl e
           | Inr rest \<Rightarrow> Inr (map (\<lambda>v. (k, [v])) vs @ rest)))"

text \<open>
  The keyword arguments \<open>**params\<close> are the list of their items in call order; an absent
  value is \<open>None\<close>.
\<close>

definition construct_redirect_uri ::
  "string \<Rightarrow> (string \<times> string option) list \<Rightarrow> error + string" where
  "construct_redirect_uri redirect_uri_base params =
     (case urlparse redirect_uri_base of
        Inl e \<Rightarrow> Inl e
      | Inr parsed_uri \<Rightarrow>
          (case existing_params (map fst (parse_qs (uri_query parsed_uri))) of
             Inl e \<Rightarrow> Inl e
           | Inr query_params \<Rightarrow>
               (let query_params =
                      foldl (\<lambda>query_params (k, v).
                               case v of
                                 None \<Rightarrow> query_params
                               | Some v \<Rightarrow> query_params @ [(code_points k, code_points v)])
                        query_params params
                in case urlencode query_params of
                     Inl e \<Rightarrow> Inl e
                   | Inr q \<Rightarrow> Inr (urlunparse (parsed_uri\<lparr>uri_query := q\<rparr>)))))"

text \<open>What \<open>quote_plus\<close> returns for a text read from the caller.\<close>

definition quoted :: "string \<Rightarrow> string" where
  "quoted s = (case quote_plus (code_points s) of Inl _ \<Rightarrow> [] | Inr q \<Rightarrow> q)"








section \<open>Properties of the issuer URL validator\<close>

lemma startswith_iff: "startswith s p \<longleftrightarrow> (\<exists>rest. s = p @ rest)"
  by (induction s p rule: startswith.induct) auto

text \<open>
  C3: an issuer URL whose scheme is not \<open>https\<close> and whose host is neither \<open>localhost\<close> nor a
  text beginning with \<open>127.0.0.1\<close> is rejected; when the scheme is \<open>https\<close>, or the host is
  \<open>localhost\<close> or begins with \<open>127.0.0.1\<close>, the scheme rule does not reject it: the HTTPS
  error is not raised, and the URL is accepted when it has neither fragment nor query.
\<close>

theorem validate_issuer_url_scheme_rule:
  "(scheme url \<noteq> ''https'' \<and> host url \<noteq> Some ''localhost''
      \<and> (\<forall>rest. host url \<noteq> Some (''127.0.0.1'' @ rest))
    \<longrightarrow> validate_issuer_url url = Inl (ValueError ''Issuer URL must be HTTPS''))
   \<and> (scheme url = ''https'' \<or> host url = Some ''localhost''
      \<or> (\<exists>rest. host url = Some (''127.0.0.1'' @ rest))
    \<longrightarrow> validate_issuer_url url \<noteq> Inl (ValueError ''Issuer URL must be HTTPS'')
      \<and> (\<not> truthy (fragment url) \<and> \<not> truthy (query url) \<longrightarrow> validate_issuer_url url = Inr ()))"
  unfolding validate_issuer_url_def
  by (auto simp: startswith_iff split: option.splits)

theorem validate_issuer_url_scheme_rule_witness:
  "validate_issuer_url \<lparr>scheme = ''http'', username = None, password = None,
        host = Some ''auth.example.com'', port = Some 80, path = Some ''/'',
        query = None, fragment = None\<rparr> = Inl (ValueError ''Issuer URL must be HTTPS'') \<and>
   validate_issuer_url \<lparr>scheme = ''http'', username = None, password = None,
        host = Some ''127.0.0.1.nip.io'', port = Some 8000, path = Some ''/'',
        query = None, fragment = None\<rparr> = Inr ()"
  using validate_issuer_url_scheme_rule [of
      "\<lparr>scheme = ''http'', username = None, password = None,
        host = Some ''auth.example.com'', port = Some 80, path = Some ''/'',
        query = None, fragment = None\<rparr>"]
    validate_issuer_url_scheme_rule [of
      "\<lparr>scheme = ''http'', username = None, password = None,
        host = Some ''127.0.0.1.nip.io'', port = Some 8000, path = Some ''/'',
        query = None, fragment = None\<rparr>"]
  by (simp add: truthy_def)

text \<open>
  C4: an issuer URL with a non-empty fragment or a non-empty query is rejected, whatever
  its scheme and host are.
\<close>

theorem validate_issuer_url_fragment_query:
  "(\<exists>f. fragment url = Some f \<and> f \<noteq> []) \<or> (\<exists>q. query url = Some q \<and> q \<noteq> [])
   \<Longrightarrow> \<exists>msg. validate_issuer_url url = Inl (ValueError msg)"
  unfolding validate_issuer_url_def truthy_def
  by (auto split: option.splits)

theorem validate_issuer_url_fragment_query_witness:
  "\<exists>msg. validate_issuer_url \<lparr>scheme = ''https'', username = None, password = None,
        host = Some ''auth.example.com'', port = Some 443, path = Some ''/'',
        query = Some ''tenant=1'', fragment = None\<rparr> = Inl (ValueError msg)"
  using validate_issuer_url_fragment_query [of
      "\<lparr>scheme = ''https'', username = None, password = None,
        host = Some ''auth.example.com'', port = Some 443, path = Some ''/'',
        query = Some ''tenant=1'', fragment = None\<rparr>"]
  by simp


section \<open>Properties of the metadata builder\<close>

lemma rstrip_slash_decomp:
  "\<exists>n. s = rstrip ''/'' s @ replicate n CHR ''/''"
proof -
  let ?P = "\<lambda>c. c \<in> set ''/''"
  have "rev s = takeWhile ?P (rev s) @ dropWhile ?P (rev s)" by simp
  then have "s = rev (dropWhile ?P (rev s)) @ rev (takeWhile ?P (rev s))"
    by (metis rev_append rev_rev_ident)
  moreover have "rev (takeWhile ?P (rev s)) = replicate (length (takeWhile ?P (rev s))) CHR ''/''"
  proof -
    have "\<forall>c \<in> set (rev (takeWhile ?P (rev s))). c = CHR ''/''"
      using set_takeWhileD by fastforce
    then show ?thesis
      by (metis length_rev replicate_length_same)
  qed
  ultimately show ?thesis unfolding rstrip_def by metis
qed

lemma rstrip_slash_last:
  "rstrip ''/'' s = [] \<or> last (rstrip ''/'' s) \<noteq> CHR ''/''"
proof (cases "dropWhile (\<lambda>c. c \<in> set ''/'') (rev s)")
  case Nil
  then show ?thesis by (simp add: rstrip_def)
next
  case (Cons a as)
  then have "\<not> a \<in> set ''/''"
    using hd_dropWhile[of "\<lambda>c. c \<in> set ''/''" "rev s"] by auto
  with Cons show ?thesis by (simp add: rstrip_def)
qed

lemma lstrip_paths:
  "lstrip ''/'' AUTHORIZATION_PATH = ''authorize''"
  "lstrip ''/'' TOKEN_PATH = ''token''"
  "lstrip ''/'' REGISTRATION_PATH = ''register''"
  "lstrip ''/'' REVOCATION_PATH = ''revoke''"
  by (simp_all add: lstrip_def AUTHORIZATION_PATH_def TOKEN_PATH_def REGISTRATION_PATH_def
      REVOCATION_PATH_def)

text \<open>
  The specification words the path of an endpoint URL as the join of the issuer's path
  without trailing slashes and the suffix without its leading slash. The path that is
  advertised is not that join: \<open>AnyHttpUrl.build\<close> writes a slash before the path it is
  given. For the issuer path \<open>/tenant/\<close> the join is \<open>/tenantauthorize\<close> and the advertised
  path \<open>//tenantauthorize\<close>; for the issuer path \<open>/\<close> the join is \<open>token\<close> and the
  advertised path \<open>/token\<close>.
\<close>

theorem build_metadata_joined_path_counterexample:
  "rstrip ''/'' ''/tenant/'' @ lstrip ''/'' AUTHORIZATION_PATH = ''/tenantauthorize'' \<and>
   path (authorization_endpoint (build_metadata
       \<lparr>scheme = ''https'', username = None, password = None,
        host = Some ''auth.example.com'', port = Some 443, path = Some ''/tenant/'',
        query = None, fragment = None\<rparr>
       None \<lparr>enabled = False\<rparr> \<lparr>enabled = False\<rparr>)) = Some ''//tenantauthorize'' \<and>
   rstrip ''/'' ''/'' @ lstrip ''/'' TOKEN_PATH = ''token'' \<and>
   path (token_endpoint (build_metadata
       \<lparr>scheme = ''https'', username = None, password = None,
        host = Some ''auth.example.com'', port = Some 443, path = Some ''/'',
        query = None, fragment = None\<rparr>
       None \<lparr>enabled = False\<rparr> \<lparr>enabled = False\<rparr>)) = Some ''/token''"
  by (simp add: build_metadata_def modify_url_path_def Let_def lstrip_paths
      AnyHttpUrl_build_def rstrip_def or_empty_def)

text \<open>
  C2: every endpoint URL of the metadata has the issuer's scheme, user information, host,
  port, query and fragment, unchanged; its path is the slash of \<open>AnyHttpUrl.build\<close>
  followed by the join, with nothing in between, of the issuer's path without its
  trailing slashes (\<open>base\<close>) and the suffix without its leading slash (\<open>authorize\<close>,
  \<open>token\<close>, \<open>register\<close>, \<open>revoke\<close>).
\<close>

theorem build_metadata_endpoint_urls:
  "\<exists>base n.
     or_empty (path issuer_url) = base @ replicate n CHR ''/'' \<and>
     (base = [] \<or> last base \<noteq> CHR ''/'') \<and>
     AUTHORIZATION_PATH = ''/'' @ ''authorize'' \<and> TOKEN_PATH = ''/'' @ ''token'' \<and>
     REGISTRATION_PATH = ''/'' @ ''register'' \<and> REVOCATION_PATH = ''/'' @ ''revoke'' \<and>
     (let m = build_metadata issuer_url doc registration revocation;
          advertised = (\<lambda>suffix.
            \<lparr>scheme = scheme issuer_url, username = username issuer_url,
             password = password issuer_url, host = host issuer_url, port = port issuer_url,
             path = Some (''/'' @ base @ suffix),
             query = query issuer_url, fragment = fragment issuer_url\<rparr>)
      in authorization_endpoint m = advertised ''authorize'' \<and>
         token_endpoint m = advertised ''token'' \<and>
         registration_endpoint m =
           (if enabled registration then Some (advertised ''register'') else None) \<and>
         revocation_endpoint m =
           (if enabled revocation then Some (advertised ''revoke'') else None))"
proof -
  obtain n where n: "or_empty (path issuer_url)
      = rstrip ''/'' (or_empty (path issuer_url)) @ replicate n CHR ''/''"
    using rstrip_slash_decomp by blast
  show ?thesis
    apply (rule exI[of _ "rstrip ''/'' (or_empty (path issuer_url))"])
    apply (rule exI[of _ n])
    apply (intro conjI)
          apply (rule n)
         apply (rule rstrip_slash_last)
        apply (simp add: AUTHORIZATION_PATH_def)
       apply (simp add: TOKEN_PATH_def)
      apply (simp add: REGISTRATION_PATH_def)
     apply (simp add: REVOCATION_PATH_def)
    apply (simp add: build_metadata_def modify_url_path_def Let_def lstrip_paths
        AnyHttpUrl_build_def)
    done
qed

theorem build_metadata_endpoint_urls_witness:
  "(let m = build_metadata
       \<lparr>scheme = ''https'', username = None, password = None,
        host = Some ''auth.example.com'', port = Some 8443, path = Some ''/tenant/'',
        query = None, fragment = None\<rparr>
       None \<lparr>enabled = True\<rparr> \<lparr>enabled = False\<rparr>
    in authorization_endpoint m =
         \<lparr>scheme = ''https'', username = None, password = None,
          host = Some ''auth.example.com'', port = Some 8443,
          path = Some ''//tenantauthorize'', query = None, fragment = None\<rparr> \<and>
       registration_endpoint m =
         Some \<lparr>scheme = ''https'', username = None, password = None,
          host = Some ''auth.example.com'', port = Some 8443,
          path = Some ''//tenantregister'', query = None, fragment = None\<rparr> \<and>
       revocation_endpoint m = None \<and>
       path (token_endpoint m) = Some ''//tenanttoken'')"
  using build_metadata_endpoint_urls [of
      "\<lparr>scheme = ''https'', username = None, password = None,
        host = Some ''auth.example.com'', port = Some 8443, path = Some ''/tenant/'',
        query = None, fragment = None\<rparr>"
      None "\<lparr>enabled = True\<rparr>" "\<lparr>enabled = False\<rparr>"]
  by (simp add: build_metadata_def modify_url_path_def Let_def lstrip_paths
      AnyHttpUrl_build_def rstrip_def or_empty_def)

text \<open>
  C5: for the issuer \<open>https://auth.example.com\<close>, with client registration and revocation
  disabled, the metadata has no \<open>registration_endpoint\<close> and no \<open>revocation_endpoint\<close>, and
  its \<open>token_endpoint\<close> is written \<open>https://auth.example.com/token\<close>.
\<close>

theorem build_metadata_example:
  "(let m = build_metadata
       \<lparr>scheme = ''https'', username = None, password = None,
        host = Some ''auth.example.com'', port = Some 443, path = Some ''/'',
        query = None, fragment = None\<rparr>
       None \<lparr>enabled = False\<rparr> \<lparr>enabled = False\<rparr>
    in registration_endpoint m = None \<and> revocation_endpoint m = None \<and>
       AnyHttpUrl_str (token_endpoint m) = ''https://auth.example.com/token'')"
  by (simp add: build_metadata_def modify_url_path_def Let_def lstrip_paths
      AnyHttpUrl_build_def AnyHttpUrl_str_def rstrip_def or_empty_def default_port_def)


section \<open>Properties of the route table\<close>

lemma validate_example_issuer:
  "validate_issuer_url \<lparr>scheme = ''https'', username = None, password = None,
        host = Some ''auth.example.com'', port = Some 443, path = Some ''/'',
        query = None, fragment = None\<rparr> = Inr ()"
  by (simp add: validate_issuer_url_def truthy_def)

text \<open>
  C6: for a valid issuer and any other configuration, the route table with client
  registration enabled binds what the table with registration disabled binds and one
  route more, POST \<open>/register\<close>; with revocation enabled it binds one route more,
  POST \<open>/revoke\<close>. The metadata with registration enabled is the metadata with
  registration disabled with the one field \<open>registration_endpoint\<close> set, which was absent;
  with revocation enabled it is the metadata with revocation disabled with the two fields
  \<open>revocation_endpoint\<close> and \<open>revocation_endpoint_auth_methods_supported\<close> set, which were
  absent.
\<close>

theorem enabling_adds_routes_and_fields:
  assumes "validate_issuer_url issuer_url = Inr ()"
  shows
  "(\<exists>off on.
      create_auth_routes dreg drev provider issuer_url doc
          (Some (registration\<lparr>enabled := False\<rparr>)) revocation_opt = Inr off \<and>
      create_auth_routes dreg drev provider issuer_url doc
          (Some (registration\<lparr>enabled := True\<rparr>)) revocation_opt = Inr on \<and>
      mset (map route_binding on)
        = add_mset (''/register'', [''POST'']) (mset (map route_binding off))) \<and>
   (\<exists>off on.
      create_auth_routes dreg drev provider issuer_url doc registration_opt
          (Some (revocation\<lparr>enabled := False\<rparr>)) = Inr off \<and>
      create_auth_routes dreg drev provider issuer_url doc registration_opt
          (Some (revocation\<lparr>enabled := True\<rparr>)) = Inr on \<and>
      mset (map route_binding on)
        = add_mset (''/revoke'', [''POST'']) (mset (map route_binding off))) \<and>
   (\<exists>url.
      registration_endpoint
        (build_metadata issuer_url doc (registration\<lparr>enabled := False\<rparr>) revocation) = None \<and>
      build_metadata issuer_url doc (registration\<lparr>enabled := True\<rparr>) revocation
        = (build_metadata issuer_url doc (registration\<lparr>enabled := False\<rparr>) revocation)
            \<lparr>registration_endpoint := Some url\<rparr>) \<and>
   (\<exists>url auth_methods.
      revocation_endpoint
        (build_metadata issuer_url doc registration (revocation\<lparr>enabled := False\<rparr>)) = None \<and>
      revocation_endpoint_auth_methods_supported
        (build_metadata issuer_url doc registration (revocation\<lparr>enabled := False\<rparr>)) = None \<and>
      build_metadata issuer_url doc registration (revocation\<lparr>enabled := True\<rparr>)
        = (build_metadata issuer_url doc registration (revocation\<lparr>enabled := False\<rparr>))
            \<lparr>revocation_endpoint := Some url,
             revocation_endpoint_auth_methods_supported := Some auth_methods\<rparr>)"
proof (intro conjI)
  show "\<exists>off on.
      create_auth_routes dreg drev provider issuer_url doc
          (Some (registration\<lparr>enabled := False\<rparr>)) revocation_opt = Inr off \<and>
      create_auth_routes dreg drev provider issuer_url doc
          (Some (registration\<lparr>enabled := True\<rparr>)) revocation_opt = Inr on \<and>
      mset (map route_binding on)
        = add_mset (''/register'', [''POST'']) (mset (map route_binding off))"
    using assms
    by (simp add: create_auth_routes_def Let_def route_binding_def REGISTRATION_PATH_def)
next
  show "\<exists>off on.
      create_auth_routes dreg drev provider issuer_url doc registration_opt
          (Some (revocation\<lparr>enabled := False\<rparr>)) = Inr off \<and>
      create_auth_routes dreg drev provider issuer_url doc registration_opt
          (Some (revocation\<lparr>enabled := True\<rparr>)) = Inr on \<and>
      mset (map route_binding on)
        = add_mset (''/revoke'', [''POST'']) (mset (map route_binding off))"
    using assms
    by (simp add: create_auth_routes_def Let_def route_binding_def REVOCATION_PATH_def)
next
  show "\<exists>url.
      registration_endpoint
        (build_metadata issuer_url doc (registration\<lparr>enabled := False\<rparr>) revocation) = None \<and>
      build_metadata issuer_url doc (registration\<lparr>enabled := True\<rparr>) revocation
        = (build_metadata issuer_url doc (registration\<lparr>enabled := False\<rparr>) revocation)
            \<lparr>registration_endpoint := Some url\<rparr>"
    by (simp add: build_metadata_def Let_def)
next
  show "\<exists>url auth_methods.
      revocation_endpoint
        (build_metadata issuer_url doc registration (revocation\<lparr>enabled := False\<rparr>)) = None \<and>
      revocation_endpoint_auth_methods_supported
        (build_metadata issuer_url doc registration (revocation\<lparr>enabled := False\<rparr>)) = None \<and>
      build_metadata issuer_url doc registration (revocation\<lparr>enabled := True\<rparr>)
        = (build_metadata issuer_url doc registration (revocation\<lparr>enabled := False\<rparr>))
            \<lparr>revocation_endpoint := Some url,
             revocation_endpoint_auth_methods_supported := Some auth_methods\<rparr>"
    by (simp add: build_metadata_def Let_def)
qed

theorem enabling_adds_routes_and_fields_witness:
  "map_sum id (map route_binding)
     (create_auth_routes \<lparr>enabled = False\<rparr> \<lparr>enabled = False\<rparr> ()
        \<lparr>scheme = ''https'', username = None, password = None,
        host = Some ''auth.example.com'', port = Some 443, path = Some ''/'',
        query = None, fragment = None\<rparr> None (Some \<lparr>enabled = False\<rparr>) None)
     = Inr [(''/.well-known/oauth-authorization-server'', [''GET'']),
            (''/authorize'', [''GET'', ''POST'']), (''/token'', [''POST''])] \<and>
   map_sum id (map route_binding)
     (create_auth_routes \<lparr>enabled = False\<rparr> \<lparr>enabled = False\<rparr> ()
        \<lparr>scheme = ''https'', username = None, password = None,
        host = Some ''auth.example.com'', port = Some 443, path = Some ''/'',
        query = None, fragment = None\<rparr> None (Some \<lparr>enabled = True\<rparr>) None)
     = Inr [(''/.well-known/oauth-authorization-server'', [''GET'']),
            (''/authorize'', [''GET'', ''POST'']), (''/token'', [''POST'']),
            (''/register'', [''POST''])]"
  using enabling_adds_routes_and_fields [OF validate_example_issuer,
      of "\<lparr>enabled = False\<rparr>" "\<lparr>enabled = False\<rparr>" "()" None "\<lparr>enabled = False\<rparr>" None None
         "\<lparr>enabled = False\<rparr>"]
  by (simp add: create_auth_routes_def validate_example_issuer Let_def route_binding_def
      AUTHORIZATION_PATH_def TOKEN_PATH_def REGISTRATION_PATH_def)

text \<open>
  C7: when the issuer URL is rejected, \<open>create_auth_routes\<close> fails with the validator's
  error and returns no route table; when it is accepted, the table starts with the
  metadata route (GET \<open>/.well-known/oauth-authorization-server\<close>), the authorization route
  (GET and POST \<open>/authorize\<close>) and the token route (POST \<open>/token\<close>).
\<close>

theorem create_auth_routes_validates_first:
  "(\<forall>e. validate_issuer_url issuer_url = Inl e \<longrightarrow>
      create_auth_routes dreg drev provider issuer_url doc registration_opt revocation_opt
        = Inl e) \<and>
   (validate_issuer_url issuer_url = Inr () \<longrightarrow>
      (\<exists>routes.
         create_auth_routes dreg drev provider issuer_url doc registration_opt revocation_opt
           = Inr routes \<and>
         take 3 (map route_binding routes) =
           [(''/.well-known/oauth-authorization-server'', [''GET'']),
            (''/authorize'', [''GET'', ''POST'']),
            (''/token'', [''POST''])]))"
  by (simp add: create_auth_routes_def Let_def route_binding_def AUTHORIZATION_PATH_def
      TOKEN_PATH_def)

theorem create_auth_routes_validates_first_witness:
  "create_auth_routes \<lparr>enabled = False\<rparr> \<lparr>enabled = False\<rparr> ()
        \<lparr>scheme = ''http'', username = None, password = None,
        host = Some ''auth.example.com'', port = Some 80, path = Some ''/'',
        query = None, fragment = None\<rparr> None None None
     = Inl (ValueError ''Issuer URL must be HTTPS'') \<and>
   (\<exists>routes. create_auth_routes \<lparr>enabled = False\<rparr> \<lparr>enabled = False\<rparr> ()
        \<lparr>scheme = ''https'', username = None, password = None,
        host = Some ''auth.example.com'', port = Some 443, path = Some ''/'',
        query = None, fragment = None\<rparr> None None None = Inr routes \<and>
      take 3 (map route_binding routes) =
           [(''/.well-known/oauth-authorization-server'', [''GET'']),
            (''/authorize'', [''GET'', ''POST'']),
            (''/token'', [''POST''])])"
  using create_auth_routes_validates_first [of
        "\<lparr>scheme = ''http'', username = None, password = None,
        host = Some ''auth.example.com'', port = Some 80, path = Some ''/'',
        query = None, fragment = None\<rparr>" "\<lparr>enabled = False\<rparr>" "\<lparr>enabled = False\<rparr>" "()"
        None None None]
    create_auth_routes_validates_first [of
        "\<lparr>scheme = ''https'', username = None, password = None,
        host = Some ''auth.example.com'', port = Some 443, path = Some ''/'',
        query = None, fragment = None\<rparr>" "\<lparr>enabled = False\<rparr>" "\<lparr>enabled = False\<rparr>" "()"
        None None None]
  by (simp add: validate_issuer_url_def truthy_def)


section \<open>Properties of construct\_redirect\_uri\<close>

subsection \<open>What the steps compute\<close>



lemma utf8_encode_code_points: "\<exists>bs. utf8_encode (code_points s) = Inr bs"
proof (induction s)
  case Nil
  then show ?case by (simp add: code_points_def)
next
  case (Cons c s)
  have "(of_char c :: nat) < 55296"
    using nat_of_char_less_256[of c] by linarith
  with Cons show ?case by (auto simp: code_points_def)
qed

lemma quote_plus_code_points: "\<exists>q. quote_plus (code_points s) = Inr q"
  using utf8_encode_code_points[of s]
  by (auto simp: quote_plus_def quote_def)

lemma quote_plus_quoted: "quote_plus (code_points s) = Inr (quoted s)"
  using quote_plus_code_points[of s] by (auto simp: quoted_def)

lemma always_safe_ascii:
  "c \<in> set always_safe \<Longrightarrow> (of_char c :: nat) < 128 \<and> c \<noteq> CHR '' ''"
  by (auto simp: always_safe_def)

lemma utf8_encode_ascii:
  "list_all (\<lambda>c. (of_char c :: nat) < 128) s \<Longrightarrow>
   utf8_encode (map of_char s) = Inr (map of_char s)"
  by (induction s) auto

lemma quoter_safe: "c \<in> set always_safe \<Longrightarrow> quoter [] (of_char c) = [c]"
  using always_safe_ascii[of c] by (simp add: quoter_def)

lemma quote_from_bytes_safe:
  "list_all (\<lambda>c. c \<in> set always_safe) s \<Longrightarrow> quote_from_bytes [] (map of_char s) = s"
  by (induction s) (simp_all add: quote_from_bytes_def quoter_safe)

lemma space_code_point: "(of_char c :: nat) = 32 \<Longrightarrow> c = CHR '' ''"
proof -
  assume "(of_char c :: nat) = 32"
  then have "(of_char c :: nat) = of_char CHR '' ''" by simp
  then show ?thesis by (simp only: of_char_eq_iff)
qed

lemma quoted_safe:
  assumes "list_all (\<lambda>c. c \<in> set always_safe) s"
  shows "quoted s = s"
proof -
  have a: "list_all (\<lambda>c. (of_char c :: nat) < 128) s"
    using assms by (auto simp: list_all_iff dest: always_safe_ascii)
  have "32 \<notin> set (code_points s)"
  proof
    assume "32 \<in> set (code_points s)"
    then obtain c where c: "c \<in> set s" "(of_char c :: nat) = 32"
      by (auto simp: code_points_def)
    then have "c = CHR '' ''" by (simp add: space_code_point)
    with c(1) assms show False
      by (auto simp: list_all_iff dest: always_safe_ascii)
  qed
  then show ?thesis
    using utf8_encode_ascii[OF a] quote_from_bytes_safe[OF assms]
    by (auto simp: quoted_def quote_plus_def quote_def code_points_def)
qed


subsection \<open>The form encoding\<close>




















subsection \<open>A base of the form scheme://authority/path\<close>






subsection \<open>A base without query\<close>






subsection \<open>A base with a query\<close>

lemma urlparse_example_query:
  "urlparse ''https://cb.example.com/cb?foo=1'' =
     Inr \<lparr>uri_scheme = ''https'', uri_netloc = ''cb.example.com'', uri_path = ''/cb'',
          uri_params = [], uri_query = ''foo=1'', uri_fragment = []\<rparr>"
  by code_simp

lemma parse_qs_example: "parse_qs ''foo=1'' = [([102, 111, 111], [[49]])]"
  by code_simp

text \<open>
  C1: for the base \<open>https://cb.example.com/cb?foo=1\<close> with \<open>code="abc"\<close> and \<open>state\<close> absent,
  the URL to return is \<open>https://cb.example.com/cb?foo=1&code=abc\<close>. The code raises
  \<open>ValueError\<close> instead: the comprehension iterates over the dictionary of the parsed
  query, not over its items, and unpacks the name \<open>foo\<close> into \<open>k, vs\<close>.
\<close>

theorem construct_redirect_uri_existing_query:
  "construct_redirect_uri ''https://cb.example.com/cb?foo=1''
     [(''code'', Some ''abc''), (''state'', None)]
   = Inl (ValueError ''too many values to unpack (expected 2)'')"
  by (simp add: construct_redirect_uri_def urlparse_example_query parse_qs_example
      unpack_pair_def)

text \<open>
  The same happens for every base whose parsed query (the dictionary of \<open>parse_qs\<close>, which
  leaves out the fields with an empty value) holds a name that is not two characters
  long; a name of two characters is taken apart instead.
\<close>

lemma unpack_pair_error: "length s \<noteq> 2 \<Longrightarrow> \<exists>msg. unpack_pair s = Inl (ValueError msg)"
  by (auto simp: unpack_pair_def split: list.splits)

lemma existing_params_error:
  "key \<in> set keys \<Longrightarrow> length key \<noteq> 2 \<Longrightarrow> \<exists>msg. existing_params keys = Inl (ValueError msg)"
proof (induction keys)
  case Nil
  then show ?case by simp
next
  case (Cons a keys)
  show ?case
  proof (cases "length a = 2")
    case True
    with Cons obtain msg where m: "existing_params keys = Inl (ValueError msg)" by auto
    from True obtain x y where "a = [x, y]"
      by (metis (no_types, opaque_lifting) One_nat_def Suc_1 length_0_conv length_Suc_conv)
    then show ?thesis using m by (simp add: unpack_pair_def)
  next
    case False
    then obtain msg where "unpack_pair a = Inl (ValueError msg)"
      using unpack_pair_error by blast
    then show ?thesis by simp
  qed
qed

lemma construct_redirect_uri_name_error:
  assumes "urlparse redirect_uri_base = Inr parsed_uri"
    and "(name, vals) \<in> set (parse_qs (uri_query parsed_uri))"
    and "length name \<noteq> 2"
  shows "\<exists>msg. construct_redirect_uri redirect_uri_base params = Inl (ValueError msg)"
proof -
  have "name \<in> set (map fst (parse_qs (uri_query parsed_uri)))"
    using assms(2) by force
  then obtain msg where
    "existing_params (map fst (parse_qs (uri_query parsed_uri))) = Inl (ValueError msg)"
    using existing_params_error assms(3) by blast
  then show ?thesis
    by (simp add: construct_redirect_uri_def assms(1))
qed

lemma urlparse_example_two_letters:
  "urlparse ''https://cb.example.com/cb?ab=1'' =
     Inr \<lparr>uri_scheme = ''https'', uri_netloc = ''cb.example.com'', uri_path = ''/cb'',
          uri_params = [], uri_query = ''ab=1'', uri_fragment = []\<rparr>"
  by code_simp

lemma parse_qs_example_two_letters: "parse_qs ''ab=1'' = [([97, 98], [[49]])]"
  by code_simp

lemma quote_plus_safe:
  "list_all (\<lambda>c. c \<in> set always_safe) s \<Longrightarrow> quote_plus (code_points s) = Inr s"
  by (simp add: quote_plus_quoted quoted_safe)

lemma quote_plus_letters: "quote_plus [97] = Inr ''a''" "quote_plus [98] = Inr ''b''"
  using quote_plus_safe[of "''a''"] quote_plus_safe[of "''b''"]
  by (simp_all add: always_safe_def code_points_def)

lemma construct_redirect_uri_two_letter_name:
  "construct_redirect_uri ''https://cb.example.com/cb?ab=1'' [(''code'', Some ''abc'')]
   = Inr ''https://cb.example.com/cb?a=b&code=abc''"
proof -
  have q: "quote_plus (code_points ''code'') = Inr ''code''"
    "quote_plus (code_points ''abc'') = Inr ''abc''"
    by (simp_all add: quote_plus_safe always_safe_def)
  show ?thesis
    by (simp add: construct_redirect_uri_def urlparse_example_two_letters
      parse_qs_example_two_letters unpack_pair_def urlencode_def quote_plus_letters q
      urlunparse_def urlunsplit_def)
qed

end
